theory Spec2Isabelle
  imports Main "HOL-Library.Sublist"
begin

section \<open>JavaScript values\<close>

text \<open>
  The tool handlers of \<^verbatim>\<open>src/index.ts\<close> (the NATS variant) and of the REST variant receive
  untyped JSON. A JSON value is a \<open>json\<close>; the JavaScript value \<^verbatim>\<open>undefined\<close> (an absent
  property, an absent \<^verbatim>\<open>arguments\<close>) is \<open>None\<close> of \<open>json option\<close>. Numbers are the
  integer-valued ones, which JavaScript prints in decimal; strings are byte strings (UTF-8),
  and an object is the list of its properties, read with \<open>map_of\<close>.
\<close>

datatype json =
    JNull
  | JBool bool
  | JNum int
  | JStr string
  | JArr "json list"
  | JObj "(string \<times> json) list"

text \<open>\<^verbatim>\<open>!v\<close> is \<open>\<not> truthy v\<close>: the falsy values are undefined, null, false, 0 and the empty string.\<close>

fun truthy :: "json option \<Rightarrow> bool" where
  "truthy None = False"
| "truthy (Some JNull) = False"
| "truthy (Some (JBool b)) = b"
| "truthy (Some (JNum n)) = (n \<noteq> 0)"
| "truthy (Some (JStr s)) = (s \<noteq> [])"
| "truthy (Some (JArr xs)) = True"
| "truthy (Some (JObj kvs)) = True"

text \<open>Property access \<^verbatim>\<open>v.k\<close> on a value that is neither null nor undefined.\<close>

fun get_prop :: "json \<Rightarrow> string \<Rightarrow> json option" where
  "get_prop (JObj kvs) k = map_of kvs k"
| "get_prop v k = None"

text \<open>\<^verbatim>\<open>a ?? b\<close>: the right operand only when the left one is null or undefined.\<close>

fun nullish :: "json option \<Rightarrow> json option \<Rightarrow> json option" where
  "nullish None b = b"
| "nullish (Some JNull) b = b"
| "nullish (Some a) b = Some a"

text \<open>\<^verbatim>\<open>resource?.attributes\<close>.\<close>

fun resource_attributes :: "json option \<Rightarrow> json option" where
  "resource_attributes None = None"
| "resource_attributes (Some JNull) = None"
| "resource_attributes (Some r) = get_prop r ''attributes''"

subsection \<open>Strings\<close>

text \<open>\<^verbatim>\<open>Array.prototype.join\<close> on an array of strings.\<close>

fun join :: "string \<Rightarrow> string list \<Rightarrow> string" where
  "join sep [] = []"
| "join sep [x] = x"
| "join sep (x # y # ys) = x @ sep @ join sep (y # ys)"

definition digit_char :: "nat \<Rightarrow> char" where
  "digit_char d = char_of (48 + d)"

function string_of_nat :: "nat \<Rightarrow> string" where
  "string_of_nat n =
     (if n < 10 then [digit_char n] else string_of_nat (n div 10) @ [digit_char (n mod 10)])"
  by pat_completeness auto
termination
  by (relation "measure id") auto

definition string_of_int :: "int \<Rightarrow> string" where
  "string_of_int i =
     (if i < 0 then CHR ''-'' # string_of_nat (nat (- i)) else string_of_nat (nat i))"

text \<open>
  The string conversion of a template literal, \<^verbatim>\<open>`${v}`\<close>: an array is its elements joined by
  commas, with null elements empty, and an object is \<^verbatim>\<open>[object Object]\<close>.
\<close>

fun js_to_string :: "json \<Rightarrow> string" where
  "js_to_string JNull = ''null''"
| "js_to_string (JBool b) = (if b then ''true'' else ''false'')"
| "js_to_string (JNum n) = string_of_int n"
| "js_to_string (JStr s) = s"
| "js_to_string (JArr xs) =
     join '','' (map (\<lambda>x. if x = JNull then [] else js_to_string x) xs)"
| "js_to_string (JObj kvs) = ''[object Object]''"

fun template_string :: "json option \<Rightarrow> string" where
  "template_string None = ''undefined''"
| "template_string (Some v) = js_to_string v"

text \<open>\<^verbatim>\<open>toLowerCase\<close> on the ASCII letters; every other byte is kept.\<close>

definition toLowerChar :: "char \<Rightarrow> char" where
  "toLowerChar c =
     (let n = of_char c :: nat in if 65 \<le> n \<and> n \<le> 90 then char_of (n + 32) else c)"

definition toLowerCase :: "string \<Rightarrow> string" where
  "toLowerCase s = map toLowerChar s"

fun startsWith :: "string \<Rightarrow> string \<Rightarrow> bool" where
  "startsWith s [] = True"
| "startsWith [] (c # cs) = False"
| "startsWith (d # ds) (c # cs) = (d = c \<and> startsWith ds cs)"

text \<open>\<^verbatim>\<open>s.includes(sub)\<close>: \<open>sub\<close> occurs in \<open>s\<close> at some position.\<close>

fun str_includes :: "string \<Rightarrow> string \<Rightarrow> bool" where
  "str_includes [] sub = (sub = [])"
| "str_includes (c # cs) sub = (startsWith (c # cs) sub \<or> str_includes cs sub)"

text \<open>The non-ASCII characters of the result texts, as their UTF-8 bytes.\<close>

definition bullet :: string where
  "bullet = [CHR 0xE2, CHR 0x80, CHR 0xA2]"

definition en_dash :: string where
  "en_dash = [CHR 0xE2, CHR 0x80, CHR 0x93]"

definition check_mark :: string where
  "check_mark = [CHR 0xE2, CHR 0x9C, CHR 0x85]"

definition wastebasket :: string where
  "wastebasket = [CHR 0xF0, CHR 0x9F, CHR 0x97, CHR 0x91, CHR 0xEF, CHR 0xB8, CHR 0x8F]"

section \<open>Errors\<close>

text \<open>
  An issue of a zod validation: the path of the offending value and the message. Every
  \<^verbatim>\<open>throw\<close> of the handlers is a \<open>js_error\<close> on the left of the result.
\<close>

datatype zod_issue = ZodIssue (path: "string list") (message: string)

datatype js_error =
    Error string
  | TypeError string
  | ZodError "zod_issue list"
  | AxiosError string

section \<open>The zod schemas\<close>

text \<open>
  The handlers validate with the zod library (version 3, whose errors have the
  \<^verbatim>\<open>errors\<close> list that the handlers read). Its \<^verbatim>\<open>z.object\<close>, \<^verbatim>\<open>z.string\<close> and \<^verbatim>\<open>z.any\<close> are
  modelled on JSON values.
\<close>

text \<open>The type name zod gives a value (\<^verbatim>\<open>getParsedType\<close>).\<close>

fun getParsedType :: "json option \<Rightarrow> string" where
  "getParsedType None = ''undefined''"
| "getParsedType (Some JNull) = ''null''"
| "getParsedType (Some (JBool b)) = ''boolean''"
| "getParsedType (Some (JNum n)) = ''number''"
| "getParsedType (Some (JStr s)) = ''string''"
| "getParsedType (Some (JArr xs)) = ''array''"
| "getParsedType (Some (JObj kvs)) = ''object''"

text \<open>
  zod's issue for a value of the wrong type, with the message of its default error map:
  \<^verbatim>\<open>Required\<close> for undefined, \<^verbatim>\<open>Expected string, received number\<close> otherwise.
\<close>

definition invalid_type :: "string list \<Rightarrow> string \<Rightarrow> json option \<Rightarrow> zod_issue" where
  "invalid_type p expected v =
     ZodIssue p (if v = None then ''Required''
                 else ''Expected '' @ expected @ '', received '' @ getParsedType v)"

datatype zod_type = ZodString | ZodAny

text \<open>\<^verbatim>\<open>z.string()\<close> accepts strings only; \<^verbatim>\<open>z.any()\<close> accepts every value, undefined too.\<close>

fun zod_parse_value :: "zod_type \<Rightarrow> string list \<Rightarrow> json option \<Rightarrow> zod_issue list" where
  "zod_parse_value ZodString p (Some (JStr s)) = []"
| "zod_parse_value ZodString p v = [invalid_type p ''string'' v]"
| "zod_parse_value ZodAny p v = []"

text \<open>
  \<^verbatim>\<open>z.object(shape)\<close>: a value that is not an object is one issue at the root. On an object
  every key of the shape is validated and all issues are collected; the parsed value holds
  the keys of the shape that the input has, in the order of the shape, and no other key.
\<close>

definition zod_object_issues :: "(string \<times> zod_type) list \<Rightarrow> (string \<times> json) list \<Rightarrow> zod_issue list" where
  "zod_object_issues shape kvs =
     concat (map (\<lambda>(k, ty). zod_parse_value ty [k] (map_of kvs k)) shape)"

definition zod_object_data :: "(string \<times> zod_type) list \<Rightarrow> (string \<times> json) list \<Rightarrow> json" where
  "zod_object_data shape kvs =
     JObj (concat (map (\<lambda>(k, ty). case map_of kvs k of None \<Rightarrow> [] | Some v \<Rightarrow> [(k, v)]) shape))"

fun safeParse :: "(string \<times> zod_type) list \<Rightarrow> json option \<Rightarrow> zod_issue list + json" where
  "safeParse shape (Some (JObj kvs)) =
     (if zod_object_issues shape kvs = [] then Inr (zod_object_data shape kvs)
      else Inl (zod_object_issues shape kvs))"
| "safeParse shape v = Inl [invalid_type [] ''object'' v]"

text \<open>\<^verbatim>\<open>schema.parse\<close> throws the issues as a \<^verbatim>\<open>ZodError\<close>.\<close>

definition parse :: "(string \<times> zod_type) list \<Rightarrow> json option \<Rightarrow> js_error + json" where
  "parse shape v = (case safeParse shape v of Inl issues \<Rightarrow> Inl (ZodError issues) | Inr d \<Rightarrow> Inr d)"

text \<open>
  The message both the fallback guard and the \<^verbatim>\<open>catch\<close> block build from the issues:
  \<^verbatim>\<open>errors.map((e) => `${e.path.join(".")}: ${e.message}`).join(", ")\<close>.
\<close>

definition format_issue :: "zod_issue \<Rightarrow> string" where
  "format_issue e = join ''.'' (path e) @ '': '' @ message e"

definition format_issues :: "zod_issue list \<Rightarrow> string" where
  "format_issues errors = join '', '' (map format_issue errors)"

definition invalid_arguments :: "zod_issue list \<Rightarrow> js_error" where
  "invalid_arguments errors = Error (''Invalid arguments: '' @ format_issues errors)"

section \<open>The NATS variant (src/index.ts)\<close>

definition DeploySchema :: "(string \<times> zod_type) list" where
  "DeploySchema = [(''user_id'', ZodString), (''template_id'', ZodString), (''creds'', ZodAny)]"

definition DeleteSchema :: "(string \<times> zod_type) list" where
  "DeleteSchema = [(''server_id'', ZodString)]"

text \<open>A template of the catalog (\<^verbatim>\<open>TemplateSchema\<close>): id, name and an optional description.\<close>

record template =
  t_id :: string
  t_name :: string
  t_description :: "string option"

definition templates :: "template list" where
  "templates =
     [\<lparr>t_id = ''tpl-mongo'', t_name = ''MongoDB Server'',
        t_description = Some ''Basic MongoDB stack''\<rparr>,
      \<lparr>t_id = ''tpl-gpt'', t_name = ''Basic GPT Server'',
        t_description = Some ''A basic inference stack''\<rparr>,
      \<lparr>t_id = ''tpl-scraper'', t_name = ''Scraper + Storage'',
        t_description = Some ''Web scraper with data sink''\<rparr>]"

text \<open>
  \<^verbatim>\<open>templates.find((t) => t.name.toLowerCase().includes(name.toLowerCase()))\<close>. The callback
  runs on the first entry, if there is one; there a name that is not a string has no
  \<^verbatim>\<open>toLowerCase\<close> and the call throws a \<^verbatim>\<open>TypeError\<close>.
\<close>

definition name_matches :: "string \<Rightarrow> template \<Rightarrow> bool" where
  "name_matches n t = str_includes (toLowerCase (t_name t)) (toLowerCase n)"

fun find_template :: "template list \<Rightarrow> json \<Rightarrow> js_error + template option" where
  "find_template catalog (JStr n) = Inr (List.find (name_matches n) catalog)"
| "find_template [] v = Inr None"
| "find_template (t # ts) v = Inl (TypeError ''name.toLowerCase is not a function'')"

text \<open>
  The resolution of the deploy tool, from \<^verbatim>\<open>DeploySchema.safeParse(data)\<close> to the payload:
  the input that satisfies the schema is the payload; otherwise the name, the credentials
  and the user id of the input must all be truthy, and the template is looked up by name.
  A property that the input does not have is undefined, hence falsy: the last case.
  The catalog is a parameter; the handler passes \<open>templates\<close>.
\<close>

definition resolve :: "template list \<Rightarrow> json \<Rightarrow> js_error + json" where
  "resolve catalog data =
     (case safeParse DeploySchema (Some data) of
        Inr parsed_data \<Rightarrow> Inr parsed_data
      | Inl errors \<Rightarrow>
          (case (get_prop data ''name'', get_prop data ''creds'', get_prop data ''user_id'') of
             (Some name, Some creds, Some user_id) \<Rightarrow>
               if \<not> truthy (Some name) \<or> \<not> truthy (Some user_id) \<or> \<not> truthy (Some creds)
               then Inl (invalid_arguments errors)
               else (case find_template catalog name of
                       Inl e \<Rightarrow> Inl e
                     | Inr None \<Rightarrow>
                         Inl (Error (''No template found matching name: '' @ js_to_string name))
                     | Inr (Some found) \<Rightarrow>
                         Inr (JObj [(''user_id'', user_id),
                                    (''template_id'', JStr (t_id found)),
                                    (''creds'', creds)]))
           | _ \<Rightarrow> Inl (invalid_arguments errors)))"

text \<open>
  The server: whether the NATS connection is established, and the messages published so
  far, each with its subject. A message is kept as the payload that the handler encodes
  with \<^verbatim>\<open>sc.encode(JSON.stringify(payload))\<close>.
\<close>

record server =
  nats :: bool
  published :: "(string \<times> json) list"

definition publish :: "string \<Rightarrow> json \<Rightarrow> server \<Rightarrow> server" where
  "publish subject payload s = s\<lparr>published := published s @ [(subject, payload)]\<rparr>"

record ToolRequestParams =
  p_name :: string
  p_arguments :: "json option"
  p_resource :: "json option"

definition deploy_tool :: "template list \<Rightarrow> json option \<Rightarrow> server \<Rightarrow> (js_error + string) \<times> server" where
  "deploy_tool catalog data s =
     (case data of
        Some d \<Rightarrow>
          if \<not> truthy data
          then (Inl (Error ''Missing deployment input (arguments or resource)''), s)
          else (case resolve catalog d of
                  Inl e \<Rightarrow> (Inl e, s)
                | Inr payload \<Rightarrow>
                    (Inr (''Deploy event published for user ''
                            @ template_string (get_prop payload ''user_id'')
                            @ '' using template ''
                            @ template_string (get_prop payload ''template_id'')),
                     publish ''deploy'' payload s))
      | None \<Rightarrow> (Inl (Error ''Missing deployment input (arguments or resource)''), s))"

definition delete_tool :: "json option \<Rightarrow> server \<Rightarrow> (js_error + string) \<times> server" where
  "delete_tool data s =
     (if \<not> truthy data
      then (Inl (Error ''Missing deletion input (arguments or resource)''), s)
      else (case parse DeleteSchema data of
              Inl e \<Rightarrow> (Inl e, s)
            | Inr payload \<Rightarrow>
                (Inr (''Delete event published for server ''
                        @ template_string (get_prop payload ''server_id'')),
                 publish ''delete'' payload s)))"

text \<open>
  \<^verbatim>\<open>list_templates\<close> of this variant. \<^verbatim>\<open>TemplatesResponseSchema.parse\<close> checks the fields that
  the record type already fixes, so it returns the catalog.
\<close>

definition format_template :: "template \<Rightarrow> string" where
  "format_template t =
     bullet @ '' '' @ t_name t @ '' ('' @ t_id t @ '')''
       @ (case t_description t of
            None \<Rightarrow> []
          | Some d \<Rightarrow> if d \<noteq> [] then '' '' @ en_dash @ '' '' @ d else [])"

definition list_templates_tool :: "template list \<Rightarrow> string" where
  "list_templates_tool catalog = join [CHR 0x0A] (map format_template catalog)"

text \<open>The \<^verbatim>\<open>catch\<close> block: a \<^verbatim>\<open>ZodError\<close> becomes an \<^verbatim>\<open>Invalid arguments\<close> error.\<close>

fun catch_block :: "js_error \<Rightarrow> js_error" where
  "catch_block (ZodError errors) = invalid_arguments errors"
| "catch_block err = err"

definition try_block :: "template list \<Rightarrow> ToolRequestParams \<Rightarrow> server \<Rightarrow> (js_error + string) \<times> server" where
  "try_block catalog params s =
     (let data = nullish (p_arguments params) (resource_attributes (p_resource params)) in
      if p_name params = ''deploy'' then deploy_tool catalog data s
      else if p_name params = ''delete'' then delete_tool data s
      else if p_name params = ''list_templates'' then (Inr (list_templates_tool catalog), s)
      else (Inl (Error (''Unknown tool: '' @ p_name params)), s))"

definition call_tool_with :: "template list \<Rightarrow> ToolRequestParams \<Rightarrow> server \<Rightarrow> (js_error + string) \<times> server" where
  "call_tool_with catalog params s =
     (if \<not> nats s then (Inl (Error ''NATS connection not established''), s)
      else (case try_block catalog params s of
              (Inl err, s') \<Rightarrow> (Inl (catch_block err), s')
            | (Inr res, s') \<Rightarrow> (Inr res, s')))"

definition call_tool :: "ToolRequestParams \<Rightarrow> server \<Rightarrow> (js_error + string) \<times> server" where
  "call_tool = call_tool_with templates"

section \<open>The REST variant\<close>

text \<open>
  The second variant validates \<^verbatim>\<open>arguments\<close> with a schema that has no user id and calls a
  REST API. The API is a parameter: the answer to each call, an error or the response data
  (the templates, for the listing). The state is the list of the calls made.
\<close>

definition rest_DeploySchema :: "(string \<times> zod_type) list" where
  "rest_DeploySchema = [(''template_id'', ZodString), (''creds'', ZodAny)]"

record Template =
  T_id :: string
  T_name :: string
  T_path :: string
  T_fields :: "string list"
  T_type :: string
  T_sub_type :: "string option"
  T_require_subdomain :: bool
  T_require_custom_subdomain :: bool
  T_published_at :: "string option"
  T_created_at :: string
  T_updated_at :: "string option"

datatype api_call = ApiPost string json | ApiDelete string | ApiGet string

type_synonym api = "api_call \<Rightarrow> js_error + Template list"

definition rest_format_template :: "Template \<Rightarrow> string" where
  "rest_format_template t =
     (let id = T_id t;
          name = (if T_name t \<noteq> [] then T_name t else ''(unnamed)'');
          type = (if T_type t \<noteq> [] then T_type t else ''(no type)'');
          subType = (case T_sub_type t of
                       None \<Rightarrow> []
                     | Some st \<Rightarrow> if st \<noteq> [] then '' / '' @ st else []);
          fields = join '', '' (T_fields t)
      in bullet @ '' '' @ name @ '' ('' @ id @ '')'' @ [CHR 0x0A]
           @ ''  Type: '' @ type @ subType @ [CHR 0x0A]
           @ ''  Fields: '' @ fields)"

definition rest_list_templates_text :: "Template list \<Rightarrow> string" where
  "rest_list_templates_text items =
     (let text = join [CHR 0x0A, CHR 0x0A] (map rest_format_template items)
      in if text \<noteq> [] then text else ''No templates found.'')"

definition rest_call_tool :: "api \<Rightarrow> string \<Rightarrow> json option \<Rightarrow> api_call list \<Rightarrow> (js_error + string) \<times> api_call list" where
  "rest_call_tool client name args calls =
     (if name = ''deploy'' then
        (case parse rest_DeploySchema args of
           Inl e \<Rightarrow> (Inl e, calls)
         | Inr body \<Rightarrow>
             (case client (ApiPost ''/api/servers'' body) of
                Inl e \<Rightarrow> (Inl e, calls @ [ApiPost ''/api/servers'' body])
              | Inr r \<Rightarrow>
                  (Inr (check_mark @ '' Deployment triggered for template ID: ''
                          @ template_string (get_prop body ''template_id'')),
                   calls @ [ApiPost ''/api/servers'' body])))
      else if name = ''delete'' then
        (case parse DeleteSchema args of
           Inl e \<Rightarrow> (Inl e, calls)
         | Inr d \<Rightarrow>
             (let server_id = template_string (get_prop d ''server_id'') in
              case client (ApiDelete (''/api/servers/'' @ server_id)) of
                Inl e \<Rightarrow> (Inl e, calls @ [ApiDelete (''/api/servers/'' @ server_id)])
              | Inr r \<Rightarrow>
                  (Inr (wastebasket @ '' Server '' @ server_id @ '' deleted successfully''),
                   calls @ [ApiDelete (''/api/servers/'' @ server_id)])))
      else if name = ''list_templates'' then
        (case client (ApiGet ''/api/templates'') of
           Inl e \<Rightarrow> (Inl e, calls @ [ApiGet ''/api/templates''])
         | Inr items \<Rightarrow> (Inr (rest_list_templates_text items), calls @ [ApiGet ''/api/templates'']))
      else (Inl (Error (''Unknown tool: '' @ name)), calls))"

section \<open>Scenarios\<close>

text \<open>The inputs, catalogs and states at which the properties below are evaluated.\<close>

definition scenario_catalog :: "template list" where
  "scenario_catalog =
     [\<lparr>t_id = ''tpl-mongo'', t_name = ''MongoDB Server'', t_description = None\<rparr>,
      \<lparr>t_id = ''tpl-gpt'', t_name = ''Basic GPT Server'', t_description = None\<rparr>]"

definition tpl_mongo :: template where
  "tpl_mongo = \<lparr>t_id = ''tpl-mongo'', t_name = ''MongoDB Server'',
                 t_description = Some ''Basic MongoDB stack''\<rparr>"

definition tpl_gpt :: template where
  "tpl_gpt = \<lparr>t_id = ''tpl-gpt'', t_name = ''Basic GPT Server'',
               t_description = Some ''A basic inference stack''\<rparr>"

definition tpl_scraper :: template where
  "tpl_scraper = \<lparr>t_id = ''tpl-scraper'', t_name = ''Scraper + Storage'',
                   t_description = Some ''Web scraper with data sink''\<rparr>"

definition strict_input :: "(string \<times> json) list" where
  "strict_input =
     [(''user_id'', JStr ''u1''), (''template_id'', JStr ''tpl-x''), (''creds'', JObj [])]"

definition gpt_input :: "(string \<times> json) list" where
  "gpt_input = [(''user_id'', JStr ''u1''), (''name'', JStr ''gpt''), (''creds'', JObj [])]"

definition nonexistent_input :: "(string \<times> json) list" where
  "nonexistent_input =
     [(''user_id'', JStr ''u1''), (''name'', JStr ''nonexistent''), (''creds'', JObj [])]"

definition false_creds_input :: "(string \<times> json) list" where
  "false_creds_input =
     [(''user_id'', JStr ''u1''), (''name'', JStr ''gpt''), (''creds'', JBool False)]"

definition no_user_input :: "(string \<times> json) list" where
  "no_user_input = [(''template_id'', JStr ''tpl-x''), (''creds'', JObj [])]"

definition no_creds_input :: "(string \<times> json) list" where
  "no_creds_input = [(''user_id'', JStr ''u1''), (''template_id'', JStr ''tpl-x'')]"

definition p_input :: "(string \<times> json) list" where
  "p_input = [(''user_id'', JStr ''u1''), (''name'', JStr ''p''), (''creds'', JObj [])]"


definition deploy_call :: "(string \<times> json) list \<Rightarrow> ToolRequestParams" where
  "deploy_call kvs = \<lparr>p_name = ''deploy'', p_arguments = Some (JObj kvs), p_resource = None\<rparr>"

definition connected :: server where
  "connected = \<lparr>nats = True, published = []\<rparr>"

definition api_ok :: api where
  "api_ok call = Inr []"

definition scenario_items :: "Template list" where
  "scenario_items =
     [\<lparr>T_id = ''64a1'', T_name = ''MongoDB Server'', T_path = ''mongo'',
        T_fields = [''user'', ''password''], T_type = ''database'', T_sub_type = Some ''nosql'',
        T_require_subdomain = False, T_require_custom_subdomain = False,
        T_published_at = None, T_created_at = ''2025-01-01'', T_updated_at = None\<rparr>,
      \<lparr>T_id = ''64a2'', T_name = [], T_path = ''gpt'',
        T_fields = [], T_type = [], T_sub_type = None,
        T_require_subdomain = True, T_require_custom_subdomain = False,
        T_published_at = None, T_created_at = ''2025-01-02'', T_updated_at = None\<rparr>]"

definition api_items :: api where
  "api_items call = Inr scenario_items"

section \<open>Auxiliary facts\<close>

lemma startsWith_prefix: "startsWith s sub \<longleftrightarrow> prefix sub s"
  by (induction s sub rule: startsWith.induct) auto

lemma str_includes_sublist: "str_includes s sub \<longleftrightarrow> sublist sub s"
  by (induction s) (auto simp: startsWith_prefix sublist_Cons_right)

lemma name_matches_sublist:
  "name_matches n t \<longleftrightarrow> sublist (toLowerCase n) (toLowerCase (t_name t))"
  by (simp add: name_matches_def str_includes_sublist)

lemma templates_eq: "templates = [tpl_mongo, tpl_gpt, tpl_scraper]"
  by (simp add: templates_def tpl_mongo_def tpl_gpt_def tpl_scraper_def)


lemma join_Cons_nonempty:
  "x \<noteq> [] \<Longrightarrow> join sep (x # xs) \<noteq> [] \<and> hd (join sep (x # xs)) = hd x"
  by (cases xs) auto

lemma find_filter:
  "List.find P xs = (case filter P xs of [] \<Rightarrow> None | x # ys \<Rightarrow> Some x)"
  by (induction xs) auto

lemma find_first:
  "\<forall>u\<in>set pre. \<not> P u \<Longrightarrow> P m \<Longrightarrow> List.find P (pre @ m # post) = Some m"
  by (induction pre) auto

lemma find_none: "\<forall>u\<in>set xs. \<not> P u \<Longrightarrow> List.find P xs = None"
  by (induction xs) auto

subsection \<open>The strict validation\<close>

lemma DeploySchema_issues:
  "zod_object_issues DeploySchema kvs =
     zod_parse_value ZodString [''user_id''] (map_of kvs ''user_id'')
       @ zod_parse_value ZodString [''template_id''] (map_of kvs ''template_id'')"
  by (simp add: zod_object_issues_def DeploySchema_def)

lemma zod_string_ok:
  "zod_parse_value ZodString p v = [] \<longleftrightarrow> (\<exists>s. v = Some (JStr s))"
  by (cases "(ZodString, p, v)" rule: zod_parse_value.cases) auto


lemma DeploySchema_data:
  "map_of kvs ''user_id'' = Some u \<Longrightarrow> map_of kvs ''template_id'' = Some t \<Longrightarrow>
   zod_object_data DeploySchema kvs =
     JObj ([(''user_id'', u), (''template_id'', t)]
           @ (case map_of kvs ''creds'' of None \<Rightarrow> [] | Some c \<Rightarrow> [(''creds'', c)]))"
  by (simp add: zod_object_data_def DeploySchema_def)

lemma safeParse_fails:
  "(\<nexists>a b. map_of kvs ''user_id'' = Some (JStr a) \<and> map_of kvs ''template_id'' = Some (JStr b))
   \<Longrightarrow> safeParse DeploySchema (Some (JObj kvs)) = Inl (zod_object_issues DeploySchema kvs)"
  by (auto simp: DeploySchema_issues zod_string_ok)


subsection \<open>The two outcomes of a failed strict validation\<close>

lemma guard_fails:
  assumes "safeParse DeploySchema (Some data) = Inl errors"
    and "\<not> truthy (get_prop data ''name'') \<or> \<not> truthy (get_prop data ''user_id'')
           \<or> \<not> truthy (get_prop data ''creds'')"
  shows "resolve catalog data = Inl (invalid_arguments errors)"
  using assms by (auto simp: resolve_def split: option.splits)

lemma resolve_fallback:
  assumes "safeParse DeploySchema (Some (JObj kvs)) = Inl errors"
    and "map_of kvs ''name'' = Some (JStr n)" and "n \<noteq> []"
    and "map_of kvs ''user_id'' = Some u" and "truthy (Some u)"
    and "map_of kvs ''creds'' = Some c" and "truthy (Some c)"
  shows "resolve catalog (JObj kvs) =
           (case List.find (name_matches n) catalog of
              None \<Rightarrow> Inl (Error (''No template found matching name: '' @ n))
            | Some found \<Rightarrow>
                Inr (JObj [(''user_id'', u), (''template_id'', JStr (t_id found)), (''creds'', c)]))"
  using assms by (simp add: resolve_def split: option.splits)


subsection \<open>The handler on a deploy call\<close>


lemma call_args_present:
  assumes "a \<noteq> JNull"
  shows "call_tool_with catalog \<lparr>p_name = n, p_arguments = Some a, p_resource = r\<rparr> s
         = call_tool_with catalog \<lparr>p_name = n, p_arguments = Some a, p_resource = None\<rparr> s"
  using assms by (cases a) (simp_all add: call_tool_with_def try_block_def Let_def)



subsection \<open>The listing of the REST variant\<close>

lemma rest_format_template_hd:
  "rest_format_template t \<noteq> [] \<and> hd (rest_format_template t) = CHR 0xE2"
  by (simp add: rest_format_template_def bullet_def Let_def)

lemma rest_text_nonempty:
  assumes "items \<noteq> []"
  shows "join [CHR 0x0A, CHR 0x0A] (map rest_format_template items) \<noteq> []
         \<and> hd (join [CHR 0x0A, CHR 0x0A] (map rest_format_template items)) = CHR 0xE2"
proof -
  from assms obtain t ts where "items = t # ts" by (cases items) auto
  then show ?thesis
    using join_Cons_nonempty
      [of "rest_format_template t" "[CHR 0x0A, CHR 0x0A]" "map rest_format_template ts"]
    by (simp add: rest_format_template_hd)
qed

section \<open>The strict path\<close>

text \<open>
  C1. A deploy input with a string user id, a string template id and credentials is accepted
  on the strict path: the resolved command holds the supplied user id, template id and
  credentials, the template id is the supplied one, and the result is the same for every
  catalog, so the catalog plays no part in it.
\<close>

theorem strict_path_unchanged:
  assumes "map_of kvs ''user_id'' = Some (JStr u)"
    and "map_of kvs ''template_id'' = Some (JStr t)"
    and "map_of kvs ''creds'' = Some c"
  shows "resolve catalog (JObj kvs)
           = Inr (JObj [(''user_id'', JStr u), (''template_id'', JStr t), (''creds'', c)])
         \<and> resolve catalog' (JObj kvs) = resolve catalog (JObj kvs)"
  using assms by (simp add: resolve_def DeploySchema_issues DeploySchema_data)

theorem strict_path_unchanged_witness:
  "map_of strict_input ''user_id'' = Some (JStr ''u1'')
   \<and> map_of strict_input ''template_id'' = Some (JStr ''tpl-x'')
   \<and> map_of strict_input ''creds'' = Some (JObj [])
   \<and> resolve templates (JObj strict_input)
       = Inr (JObj [(''user_id'', JStr ''u1''), (''template_id'', JStr ''tpl-x''),
                    (''creds'', JObj [])])
   \<and> resolve [] (JObj strict_input) = resolve templates (JObj strict_input)"
proof -
  have h1: "map_of strict_input ''user_id'' = Some (JStr ''u1'')"
    and h2: "map_of strict_input ''template_id'' = Some (JStr ''tpl-x'')"
    and h3: "map_of strict_input ''creds'' = Some (JObj [])"
    by (simp_all add: strict_input_def)
  from strict_path_unchanged [OF h1 h2 h3, of templates "[]"] h1 h2 h3
  show ?thesis by blast
qed

section \<open>The fallback path\<close>

text \<open>
  C2, as amended. A deploy input without a template id whose user id and credentials are
  truthy and whose name is a non-empty string matching exactly one catalog entry (the
  lowercase name occurs in the entry's lowercase name) resolves to the command with that
  entry's id. On the catalog of the scenario, the input with user id u1, name gpt and empty
  credentials object resolves to the template tpl-gpt.
\<close>

theorem fallback_unique_match:
  assumes "map_of kvs ''template_id'' = None"
    and "map_of kvs ''name'' = Some (JStr n)" and "n \<noteq> []"
    and "map_of kvs ''user_id'' = Some u" and "truthy (Some u)"
    and "map_of kvs ''creds'' = Some c" and "truthy (Some c)"
    and "filter (name_matches n) catalog = [m]"
  shows "resolve catalog (JObj kvs)
           = Inr (JObj [(''user_id'', u), (''template_id'', JStr (t_id m)), (''creds'', c)])"
proof -
  have "safeParse DeploySchema (Some (JObj kvs)) = Inl (zod_object_issues DeploySchema kvs)"
    using assms(1) by (intro safeParse_fails) simp
  from resolve_fallback [OF this assms(2-7)] assms(8) show ?thesis
    by (simp add: find_filter)
qed

theorem fallback_unique_match_witness:
  "map_of gpt_input ''template_id'' = None
   \<and> map_of gpt_input ''name'' = Some (JStr ''gpt'') \<and> ''gpt'' \<noteq> []
   \<and> map_of gpt_input ''user_id'' = Some (JStr ''u1'') \<and> truthy (Some (JStr ''u1''))
   \<and> map_of gpt_input ''creds'' = Some (JObj []) \<and> truthy (Some (JObj []))
   \<and> filter (name_matches ''gpt'') scenario_catalog
       = [\<lparr>t_id = ''tpl-gpt'', t_name = ''Basic GPT Server'', t_description = None\<rparr>]
   \<and> resolve scenario_catalog (JObj gpt_input)
       = Inr (JObj [(''user_id'', JStr ''u1''), (''template_id'', JStr ''tpl-gpt''),
                    (''creds'', JObj [])])"
proof -
  have h1: "map_of gpt_input ''template_id'' = None"
    and h2: "map_of gpt_input ''name'' = Some (JStr ''gpt'')"
    and h3: "''gpt'' \<noteq> []"
    and h4: "map_of gpt_input ''user_id'' = Some (JStr ''u1'')"
    and h5: "truthy (Some (JStr ''u1''))"
    and h6: "map_of gpt_input ''creds'' = Some (JObj [])"
    and h7: "truthy (Some (JObj []))"
    by (simp_all add: gpt_input_def)
  have h8: "filter (name_matches ''gpt'') scenario_catalog
              = [\<lparr>t_id = ''tpl-gpt'', t_name = ''Basic GPT Server'', t_description = None\<rparr>]"
    by code_simp
  from fallback_unique_match [OF h1 h2 h3 h4 h5 h6 h7 h8]
  have "resolve scenario_catalog (JObj gpt_input)
          = Inr (JObj [(''user_id'', JStr ''u1''), (''template_id'', JStr ''tpl-gpt''),
                       (''creds'', JObj [])])"
    by simp
  with h1 h2 h3 h4 h5 h6 h7 h8 show ?thesis by blast
qed

text \<open>
  The claim as stated fails where the credentials are supplied but falsy: with the
  credentials \<^verbatim>\<open>false\<close> the guard of the fallback path rejects the input, although it has no
  template id and its name matches exactly one entry of the catalog.
\<close>

theorem fallback_falsy_creds_counterexample:
  "map_of false_creds_input ''template_id'' = None
   \<and> map_of false_creds_input ''user_id'' = Some (JStr ''u1'')
   \<and> map_of false_creds_input ''creds'' = Some (JBool False)
   \<and> map_of false_creds_input ''name'' = Some (JStr ''gpt'')
   \<and> filter (name_matches ''gpt'') templates = [tpl_gpt]
   \<and> resolve templates (JObj false_creds_input)
       = Inl (Error ''Invalid arguments: template_id: Required'')"
  by code_simp

text \<open>
  C3. On the fallback path (the strict validation failed; name, user id and credentials are
  truthy) with a name that matches no catalog entry, the resolver fails with the error
  whose message is \<^verbatim>\<open>No template found matching name: \<close> followed by the name.
\<close>

theorem fallback_no_match:
  assumes "safeParse DeploySchema (Some (JObj kvs)) = Inl errors"
    and "map_of kvs ''name'' = Some (JStr n)" and "n \<noteq> []"
    and "map_of kvs ''user_id'' = Some u" and "truthy (Some u)"
    and "map_of kvs ''creds'' = Some c" and "truthy (Some c)"
    and "\<forall>t\<in>set catalog. \<not> name_matches n t"
  shows "resolve catalog (JObj kvs) = Inl (Error (''No template found matching name: '' @ n))"
  using resolve_fallback [OF assms(1-7)] find_none [OF assms(8)] by simp

theorem fallback_no_match_witness:
  "safeParse DeploySchema (Some (JObj nonexistent_input))
     = Inl [ZodIssue [''template_id''] ''Required'']
   \<and> map_of nonexistent_input ''name'' = Some (JStr ''nonexistent'') \<and> ''nonexistent'' \<noteq> []
   \<and> map_of nonexistent_input ''user_id'' = Some (JStr ''u1'') \<and> truthy (Some (JStr ''u1''))
   \<and> map_of nonexistent_input ''creds'' = Some (JObj []) \<and> truthy (Some (JObj []))
   \<and> filter (name_matches ''nonexistent'') scenario_catalog = []
   \<and> resolve scenario_catalog (JObj nonexistent_input)
       = Inl (Error ''No template found matching name: nonexistent'')"
proof -
  have h1: "safeParse DeploySchema (Some (JObj nonexistent_input))
              = Inl [ZodIssue [''template_id''] ''Required'']"
    by code_simp
  have h2: "map_of nonexistent_input ''name'' = Some (JStr ''nonexistent'')"
    and h3: "''nonexistent'' \<noteq> []"
    and h4: "map_of nonexistent_input ''user_id'' = Some (JStr ''u1'')"
    and h5: "truthy (Some (JStr ''u1''))"
    and h6: "map_of nonexistent_input ''creds'' = Some (JObj [])"
    and h7: "truthy (Some (JObj []))"
    by (simp_all add: nonexistent_input_def)
  have f: "filter (name_matches ''nonexistent'') scenario_catalog = []"
    by code_simp
  then have h8: "\<forall>t\<in>set scenario_catalog. \<not> name_matches ''nonexistent'' t"
    by (simp add: filter_empty_conv)
  from fallback_no_match [OF h1 h2 h3 h4 h5 h6 h7 h8]
  have "resolve scenario_catalog (JObj nonexistent_input)
          = Inl (Error ''No template found matching name: nonexistent'')"
    by simp
  with h1 h2 h3 h4 h5 h6 h7 f show ?thesis by blast
qed


text \<open>
  C8. On the fallback path, when the name matches one or more catalog entries, the resolver
  selects the first matching entry in the order of the catalog, whatever follows it; and the
  result of a call does not depend on the messages published before, so a second run on the
  same catalog and input returns what the first run returned.
\<close>

theorem fallback_first_match:
  assumes "safeParse DeploySchema (Some (JObj kvs)) = Inl errors"
    and "map_of kvs ''name'' = Some (JStr n)" and "n \<noteq> []"
    and "map_of kvs ''user_id'' = Some u" and "truthy (Some u)"
    and "map_of kvs ''creds'' = Some c" and "truthy (Some c)"
    and "catalog = pre @ m # post"
    and "\<forall>t\<in>set pre. \<not> name_matches n t" and "name_matches n m"
  shows "resolve catalog (JObj kvs)
           = Inr (JObj [(''user_id'', u), (''template_id'', JStr (t_id m)), (''creds'', c)])
         \<and> fst (call_tool_with catalog (deploy_call kvs)
                  (snd (call_tool_with catalog (deploy_call kvs) s)))
             = fst (call_tool_with catalog (deploy_call kvs) s)"
proof
  show "resolve catalog (JObj kvs)
           = Inr (JObj [(''user_id'', u), (''template_id'', JStr (t_id m)), (''creds'', c)])"
    using resolve_fallback [OF assms(1-7)] find_first [OF assms(9,10)] assms(8) by simp
  then show "fst (call_tool_with catalog (deploy_call kvs)
                  (snd (call_tool_with catalog (deploy_call kvs) s)))
             = fst (call_tool_with catalog (deploy_call kvs) s)"
    by (simp add: call_tool_with_def try_block_def deploy_tool_def deploy_call_def publish_def)
qed

theorem fallback_first_match_witness:
  "safeParse DeploySchema (Some (JObj p_input)) = Inl [ZodIssue [''template_id''] ''Required'']
   \<and> map_of p_input ''name'' = Some (JStr ''p'') \<and> ''p'' \<noteq> []
   \<and> map_of p_input ''user_id'' = Some (JStr ''u1'') \<and> truthy (Some (JStr ''u1''))
   \<and> map_of p_input ''creds'' = Some (JObj []) \<and> truthy (Some (JObj []))
   \<and> templates = [tpl_mongo] @ tpl_gpt # [tpl_scraper]
   \<and> \<not> name_matches ''p'' tpl_mongo \<and> name_matches ''p'' tpl_gpt
   \<and> name_matches ''p'' tpl_scraper
   \<and> resolve templates (JObj p_input)
       = Inr (JObj [(''user_id'', JStr ''u1''), (''template_id'', JStr ''tpl-gpt''),
                    (''creds'', JObj [])])
   \<and> fst (call_tool_with templates (deploy_call p_input)
            (snd (call_tool_with templates (deploy_call p_input) connected)))
       = fst (call_tool_with templates (deploy_call p_input) connected)"
proof -
  have h1: "safeParse DeploySchema (Some (JObj p_input))
              = Inl [ZodIssue [''template_id''] ''Required'']"
    by code_simp
  have h2: "map_of p_input ''name'' = Some (JStr ''p'')"
    and h3: "''p'' \<noteq> []"
    and h4: "map_of p_input ''user_id'' = Some (JStr ''u1'')"
    and h5: "truthy (Some (JStr ''u1''))"
    and h6: "map_of p_input ''creds'' = Some (JObj [])"
    and h7: "truthy (Some (JObj []))"
    by (simp_all add: p_input_def)
  have h8: "templates = [tpl_mongo] @ tpl_gpt # [tpl_scraper]"
    by (simp add: templates_eq)
  have m: "\<not> name_matches ''p'' tpl_mongo"
    and h10: "name_matches ''p'' tpl_gpt"
    and h11: "name_matches ''p'' tpl_scraper"
    by code_simp+
  from m have h9: "\<forall>t\<in>set [tpl_mongo]. \<not> name_matches ''p'' t"
    by simp
  from fallback_first_match [OF h1 h2 h3 h4 h5 h6 h7 h8 h9 h10, of connected]
  have "resolve templates (JObj p_input)
          = Inr (JObj [(''user_id'', JStr ''u1''), (''template_id'', JStr ''tpl-gpt''),
                       (''creds'', JObj [])])
        \<and> fst (call_tool_with templates (deploy_call p_input)
                 (snd (call_tool_with templates (deploy_call p_input) connected)))
            = fst (call_tool_with templates (deploy_call p_input) connected)"
    by (simp add: tpl_gpt_def)
  with h1 h2 h3 h4 h5 h6 h7 h8 m h10 h11 show ?thesis by blast
qed

section \<open>Validation errors\<close>




section \<open>Dispatch\<close>





section \<open>The user id and the credentials\<close>

text \<open>
  C6, as amended. In the NATS variant a deploy input with a string template id and no user
  id fails with the error \<^verbatim>\<open>Invalid arguments: user_id: Required\<close>, whatever its credentials
  and its name. The REST variant has no user id in its schema and validates such an input.
\<close>

theorem missing_user_id:
  assumes "map_of kvs ''user_id'' = None" and "map_of kvs ''template_id'' = Some (JStr t)"
  shows "resolve catalog (JObj kvs) = Inl (Error ''Invalid arguments: user_id: Required'')
       \<and> (\<exists>body. parse rest_DeploySchema (Some (JObj kvs)) = Inr body)"
proof -
  have "safeParse DeploySchema (Some (JObj kvs))
          = Inl [invalid_type [''user_id''] ''string'' None]"
    using assms by (simp add: DeploySchema_issues)
  then have "resolve catalog (JObj kvs)
               = Inl (invalid_arguments [invalid_type [''user_id''] ''string'' None])"
    using assms(1) by (intro guard_fails) simp_all
  moreover have "\<exists>body. parse rest_DeploySchema (Some (JObj kvs)) = Inr body"
    using assms(2) by (simp add: parse_def zod_object_issues_def rest_DeploySchema_def)
  ultimately show ?thesis
    by (simp add: invalid_arguments_def format_issues_def format_issue_def invalid_type_def)
qed

theorem missing_user_id_witness:
  "map_of no_user_input ''user_id'' = None
   \<and> map_of no_user_input ''template_id'' = Some (JStr ''tpl-x'')
   \<and> resolve templates (JObj no_user_input)
       = Inl (Error ''Invalid arguments: user_id: Required'')
   \<and> (\<exists>body. parse rest_DeploySchema (Some (JObj no_user_input)) = Inr body)"
proof -
  have h1: "map_of no_user_input ''user_id'' = None"
    and h2: "map_of no_user_input ''template_id'' = Some (JStr ''tpl-x'')"
    by (simp_all add: no_user_input_def)
  from missing_user_id [OF h1 h2, of templates] h1 h2 show ?thesis by blast
qed

text \<open>
  The claim as stated fails in the REST variant: there the input with the template id tpl-x
  and empty credentials, without a user id, is deployed.
\<close>

theorem rest_accepts_missing_user_id_counterexample:
  "map_of no_user_input ''user_id'' = None
   \<and> rest_call_tool api_ok ''deploy'' (Some (JObj no_user_input)) []
       = (Inr (check_mark @ '' Deployment triggered for template ID: tpl-x''),
          [ApiPost ''/api/servers''
             (JObj [(''template_id'', JStr ''tpl-x''), (''creds'', JObj [])])])"
  by code_simp

text \<open>
  C7. The code at the input of the claim: a deploy input with a user id and a template id
  and no credentials field is accepted on the strict path and dispatched, in the NATS
  variant as the payload without credentials and in the REST variant as the body without
  credentials; no validation error is raised.
\<close>

theorem absent_creds_accepted:
  "map_of no_creds_input ''creds'' = None
   \<and> resolve templates (JObj no_creds_input)
       = Inr (JObj [(''user_id'', JStr ''u1''), (''template_id'', JStr ''tpl-x'')])
   \<and> call_tool (deploy_call no_creds_input) connected
       = (Inr ''Deploy event published for user u1 using template tpl-x'',
          \<lparr>nats = True,
             published = [(''deploy'', JObj [(''user_id'', JStr ''u1''),
                                           (''template_id'', JStr ''tpl-x'')])]\<rparr>)
   \<and> rest_call_tool api_ok ''deploy'' (Some (JObj [(''template_id'', JStr ''tpl-x'')])) []
       = (Inr (check_mark @ '' Deployment triggered for template ID: tpl-x''),
          [ApiPost ''/api/servers'' (JObj [(''template_id'', JStr ''tpl-x'')])])"
  by code_simp


theorem absent_creds_accepted_witness:
  "fst (call_tool (deploy_call no_creds_input) connected)
     = Inr ''Deploy event published for user u1 using template tpl-x''
   \<and> published (snd (call_tool (deploy_call no_creds_input) connected))
       = [(''deploy'', JObj [(''user_id'', JStr ''u1''), (''template_id'', JStr ''tpl-x'')])]"
  using absent_creds_accepted by simp

section \<open>The listing of the templates\<close>

text \<open>
  C9, as amended. In the REST variant the listing of an empty catalog is exactly
  \<^verbatim>\<open>No templates found.\<close>; the listing of a catalog with entries is never that text: it is
  the entries separated by an empty line, each a bullet, the name (or \<^verbatim>\<open>(unnamed)\<close>) and the
  id in parentheses, then the indented line \<^verbatim>\<open>Type: \<close> with the type (or \<^verbatim>\<open>(no type)\<close>) and
  the sub-type if any, then the indented line \<^verbatim>\<open>Fields: \<close> with the fields separated by
  commas. The tool returns this text for the templates that the API answers.
\<close>

theorem rest_list_templates_format:
  "rest_list_templates_text [] = ''No templates found.''
   \<and> (items \<noteq> [] \<longrightarrow>
        rest_list_templates_text items
          = join [CHR 0x0A, CHR 0x0A] (map rest_format_template items)
        \<and> rest_list_templates_text items \<noteq> ''No templates found.'')
   \<and> rest_format_template t
        = bullet @ '' '' @ (if T_name t = [] then ''(unnamed)'' else T_name t)
            @ '' ('' @ T_id t @ '')'' @ [CHR 0x0A]
            @ ''  Type: '' @ (if T_type t = [] then ''(no type)'' else T_type t)
            @ (case T_sub_type t of
                 None \<Rightarrow> []
               | Some st \<Rightarrow> if st = [] then [] else '' / '' @ st) @ [CHR 0x0A]
            @ ''  Fields: '' @ join '', '' (T_fields t)
   \<and> (client (ApiGet ''/api/templates'') = Inr items \<longrightarrow>
        rest_call_tool client ''list_templates'' args calls
          = (Inr (rest_list_templates_text items), calls @ [ApiGet ''/api/templates'']))"
proof (intro conjI impI)
  show "rest_list_templates_text [] = ''No templates found.''"
    by (simp add: rest_list_templates_text_def)
next
  assume ne: "items \<noteq> []"
  from rest_text_nonempty [OF ne]
  show eq: "rest_list_templates_text items
          = join [CHR 0x0A, CHR 0x0A] (map rest_format_template items)"
    by (simp add: rest_list_templates_text_def Let_def)
  from rest_text_nonempty [OF ne]
  have "hd (rest_list_templates_text items) = CHR 0xE2"
    by (simp add: eq)
  then show "rest_list_templates_text items \<noteq> ''No templates found.''"
    by auto
next
  show "rest_format_template t
        = bullet @ '' '' @ (if T_name t = [] then ''(unnamed)'' else T_name t)
            @ '' ('' @ T_id t @ '')'' @ [CHR 0x0A]
            @ ''  Type: '' @ (if T_type t = [] then ''(no type)'' else T_type t)
            @ (case T_sub_type t of
                 None \<Rightarrow> []
               | Some st \<Rightarrow> if st = [] then [] else '' / '' @ st) @ [CHR 0x0A]
            @ ''  Fields: '' @ join '', '' (T_fields t)"
    by (auto simp: rest_format_template_def Let_def split: option.splits)
next
  assume "client (ApiGet ''/api/templates'') = Inr items"
  then show "rest_call_tool client ''list_templates'' args calls
          = (Inr (rest_list_templates_text items), calls @ [ApiGet ''/api/templates''])"
    by (simp add: rest_call_tool_def)
qed

theorem rest_list_templates_format_witness:
  "scenario_items \<noteq> []
   \<and> api_items (ApiGet ''/api/templates'') = Inr scenario_items
   \<and> rest_call_tool api_items ''list_templates'' None []
       = (Inr (bullet @ '' MongoDB Server (64a1)'' @ [CHR 0x0A]
                 @ ''  Type: database / nosql'' @ [CHR 0x0A]
                 @ ''  Fields: user, password'' @ [CHR 0x0A, CHR 0x0A]
                 @ bullet @ '' (unnamed) (64a2)'' @ [CHR 0x0A]
                 @ ''  Type: (no type)'' @ [CHR 0x0A]
                 @ ''  Fields: ''),
          [ApiGet ''/api/templates''])
   \<and> rest_list_templates_text scenario_items \<noteq> ''No templates found.''"
proof -
  have h1: "scenario_items \<noteq> []"
    by (simp add: scenario_items_def)
  have h2: "api_items (ApiGet ''/api/templates'') = Inr scenario_items"
    by (simp add: api_items_def)
  note T = rest_list_templates_format [of scenario_items _ api_items None "[]"]
  from T h1 have c1: "rest_list_templates_text scenario_items
          = join [CHR 0x0A, CHR 0x0A] (map rest_format_template scenario_items)"
    and c2: "rest_list_templates_text scenario_items \<noteq> ''No templates found.''"
    by blast+
  from T h2 have c3: "rest_call_tool api_items ''list_templates'' None []
          = (Inr (rest_list_templates_text scenario_items), [ApiGet ''/api/templates''])"
    by simp
  have e: "join [CHR 0x0A, CHR 0x0A] (map rest_format_template scenario_items)
       = bullet @ '' MongoDB Server (64a1)'' @ [CHR 0x0A]
                 @ ''  Type: database / nosql'' @ [CHR 0x0A]
                 @ ''  Fields: user, password'' @ [CHR 0x0A, CHR 0x0A]
                 @ bullet @ '' (unnamed) (64a2)'' @ [CHR 0x0A]
                 @ ''  Type: (no type)'' @ [CHR 0x0A]
                 @ ''  Fields: ''"
    by code_simp
  from c3 c1 e have "rest_call_tool api_items ''list_templates'' None []
       = (Inr (bullet @ '' MongoDB Server (64a1)'' @ [CHR 0x0A]
                 @ ''  Type: database / nosql'' @ [CHR 0x0A]
                 @ ''  Fields: user, password'' @ [CHR 0x0A, CHR 0x0A]
                 @ bullet @ '' (unnamed) (64a2)'' @ [CHR 0x0A]
                 @ ''  Type: (no type)'' @ [CHR 0x0A]
                 @ ''  Fields: ''),
          [ApiGet ''/api/templates''])"
    by (simp only:)
  with h1 h2 c2 show ?thesis by blast
qed

text \<open>
  The claim as stated fails in the NATS variant: its listing of the catalog has a line per
  template with the name, the id and the description, no line of a type or of fields, and
  the listing of an empty catalog would be the empty text.
\<close>

theorem nats_list_templates_counterexample:
  "call_tool \<lparr>p_name = ''list_templates'', p_arguments = None, p_resource = None\<rparr> connected
     = (Inr (bullet @ '' MongoDB Server (tpl-mongo) '' @ en_dash @ '' Basic MongoDB stack''
               @ [CHR 0x0A]
               @ bullet @ '' Basic GPT Server (tpl-gpt) '' @ en_dash @ '' A basic inference stack''
               @ [CHR 0x0A]
               @ bullet @ '' Scraper + Storage (tpl-scraper) '' @ en_dash
               @ '' Web scraper with data sink''),
        connected)
   \<and> \<not> str_includes (list_templates_tool templates) ''Type:''
   \<and> \<not> str_includes (list_templates_tool templates) ''Fields:''
   \<and> list_templates_tool [] \<noteq> ''No templates found.''"
  by code_simp


end
